theory Spec2Isabelle
  imports Main
begin

section \<open>The rename workflow of the editor (RenameController, RenameAction)\<close>

text \<open>
  The theory embeds the second module of \<^verbatim>\<open>toggleComment.ts\<close>: the class
  \<^verbatim>\<open>RenameController\<close> with its methods \<^verbatim>\<open>run\<close> and \<^verbatim>\<open>_prepareRename\<close>, and
  the class \<^verbatim>\<open>RenameAction\<close> with \<^verbatim>\<open>supported\<close>, \<^verbatim>\<open>enabled\<close> and its menu
  options. The promise chain of \<^verbatim>\<open>run\<close> is written in state-passing style: every
  call on a collaborator (context key, input field, editor, message service, resolver,
  transaction, progress service) is appended to a log in the order the code issues it,
  and the way each asynchronous collaborator settles is an input of the model.
\<close>

subsection \<open>Data\<close>

record Position =
  lineNumber :: int
  column :: int

text \<open>The result of \<^verbatim>\<open>getWordAtPosition\<close>: the fields \<^verbatim>\<open>run\<close> reads.\<close>

record IWordAtPosition =
  word :: string
  startColumn :: int
  endColumn :: int

text \<open>
  \<^verbatim>\<open>IRange\<close>, as the literal of lines 100-105 builds it. A selection is read through
  the same four fields.
\<close>

record IRange =
  startLineNumber :: int
  startColumn :: int
  endLineNumber :: int
  endColumn :: int

type_synonym Selection = IRange

text \<open>
  Modelled from the spec: the class Selection (\<^verbatim>\<open>getStartPosition\<close>, \<^verbatim>\<open>isEmpty\<close>) is not
  part of the sources. The start position is the start line and start column; the
  selection is empty when it starts and ends at the same place.
\<close>

definition getStartPosition :: "Selection \<Rightarrow> Position" where
  "getStartPosition sel =
     \<lparr>lineNumber = startLineNumber sel, column = IRange.startColumn sel\<rparr>"

definition isEmpty :: "Selection \<Rightarrow> bool" where
  "isEmpty sel \<longleftrightarrow>
     startLineNumber sel = endLineNumber sel \<and>
     IRange.startColumn sel = IRange.endColumn sel"

text \<open>
  The result of the resolver, with the two fields \<^verbatim>\<open>_prepareRename\<close> reads. The
  edits are an opaque payload \<open>'e\<close>; \<^verbatim>\<open>rejectReason\<close> is an optional string.
\<close>

record 'e IRenameResult =
  edits :: "'e list"
  rejectReason :: "string option"

text \<open>The two severities the controller uses.\<close>

datatype Severity = Info | Error

text \<open>
  A value a promise is rejected with: a plain string (\<^verbatim>\<open>typeof err === 'string'\<close>),
  the cancellation error, or any other value.
\<close>

datatype rejection = JsString string | Canceled | Failure nat

text \<open>
  Modelled from the spec: \<^verbatim>\<open>isPromiseCanceledError\<close> is imported from
  \<^verbatim>\<open>vs/base/common/errors\<close>, which is not part of the sources. It recognises the
  rejection that represents user cancellation, and nothing else.
\<close>

fun isPromiseCanceledError :: "rejection \<Rightarrow> bool" where
  "isPromiseCanceledError Canceled = True"
| "isPromiseCanceledError _ = False"

text \<open>
  A promise as the workflow meets it: fulfilled with a value, rejected with a value, or
  never settling.
\<close>

datatype 'a TPromise = Fulfilled 'a | Rejected rejection | Pending

text \<open>The calls on the collaborators, in the order they are issued.\<close>

datatype 'e event =
    ContextKeySet bool
  | ContextKeyReset
  | GetInput IRange string int int
  | EditorFocus
  | EditorSetSelection Selection
  | CreateBulkEdit
  | Rename Position string
  | BulkEditAdd "'e list"
  | BulkEditFinish "'e list"
  | MessageShow Severity string
  | ProgressShowWhile "unit TPromise" nat

text \<open>
  The state the controller reads and writes: the value of the context key
  \<^verbatim>\<open>renameInputVisible\<close>, the editor's selection and cursor position, and the log.
\<close>

record 'e state =
  renameInputVisible :: bool
  selection :: Selection
  position :: Position
  log :: "'e event list"

text \<open>
  The collaborators of one interaction: the document model's word lookup, and how the
  promises of the input field, of the resolver and of the transaction's \<^verbatim>\<open>finish()\<close>
  settle, each as a function of the arguments the code passes (\<^verbatim>\<open>finish\<close> of the edits
  staged in the transaction).
\<close>

record 'e env =
  getWordAtPosition :: "Position \<Rightarrow> IWordAtPosition option"
  getInput :: "IRange \<Rightarrow> string \<Rightarrow> int \<Rightarrow> int \<Rightarrow> string TPromise"
  rename :: "Position \<Rightarrow> string \<Rightarrow> 'e IRenameResult TPromise"
  finish :: "'e list \<Rightarrow> Selection option TPromise"

subsection \<open>Collaborators\<close>

definition emit :: "'e event \<Rightarrow> 'e state \<Rightarrow> 'e state" where
  "emit e s = s\<lparr>log := log s @ [e]\<rparr>"

text \<open>
  Modelled from the spec: the context key service (\<^verbatim>\<open>vs/platform/keybinding\<close>) is not
  part of the sources. \<^verbatim>\<open>set(v)\<close> stores \<open>v\<close>; \<^verbatim>\<open>reset()\<close> resets the flag to
  false, the default the key is declared with (line 53).
\<close>

definition CONTEXT_RENAME_INPUT_VISIBLE_default :: bool where
  "CONTEXT_RENAME_INPUT_VISIBLE_default = False"

definition renameInputVisible_set :: "bool \<Rightarrow> 'e state \<Rightarrow> 'e state" where
  "renameInputVisible_set v s = emit (ContextKeySet v) (s\<lparr>renameInputVisible := v\<rparr>)"

definition renameInputVisible_reset :: "'e state \<Rightarrow> 'e state" where
  "renameInputVisible_reset s =
     emit ContextKeyReset (s\<lparr>renameInputVisible := CONTEXT_RENAME_INPUT_VISIBLE_default\<rparr>)"

definition editor_focus :: "'e state \<Rightarrow> 'e state" where
  "editor_focus s = emit EditorFocus s"

definition editor_setSelection :: "Selection \<Rightarrow> 'e state \<Rightarrow> 'e state" where
  "editor_setSelection sel s = emit (EditorSetSelection sel) (s\<lparr>selection := sel\<rparr>)"

definition messageService_show :: "Severity \<Rightarrow> string \<Rightarrow> 'e state \<Rightarrow> 'e state" where
  "messageService_show sev msg s = emit (MessageShow sev msg) s"

definition progressService_showWhile :: "unit TPromise \<Rightarrow> nat \<Rightarrow> 'e state \<Rightarrow> 'e state" where
  "progressService_showWhile promise delay s = emit (ProgressShowWhile promise delay) s"

text \<open>The default text of the message \<^verbatim>\<open>rename.failed\<close> (line 129).\<close>

definition rename_failed :: string where
  "rename_failed = ''Sorry, rename failed to execute.''"

text \<open>
  Modelled from the spec: the promise library (\<^verbatim>\<open>vs/base/common/winjs.base\<close>) is not
  part of the sources. \<^verbatim>\<open>p.then(onFulfilled, onRejected)\<close> runs \<^verbatim>\<open>onFulfilled\<close> on the
  value of a fulfilled \<^verbatim>\<open>p\<close> and \<^verbatim>\<open>onRejected\<close> on the value of a rejected \<^verbatim>\<open>p\<close>, and
  settles as the handler's result does; a rejection that \<^verbatim>\<open>onFulfilled\<close> itself produces
  is not passed to \<^verbatim>\<open>onRejected\<close>. With one handler, a rejection passes through. The
  steps are sequential: a handler runs when the promise before it has settled.
\<close>

definition then2 ::
  "'a TPromise \<times> 's \<Rightarrow> ('a \<Rightarrow> 's \<Rightarrow> 'b TPromise \<times> 's) \<Rightarrow> (rejection \<Rightarrow> 's \<Rightarrow> 'b TPromise \<times> 's)
     \<Rightarrow> 'b TPromise \<times> 's" where
  "then2 p onFulfilled onRejected =
     (case p of
        (Fulfilled v, s) \<Rightarrow> onFulfilled v s
      | (Rejected err, s) \<Rightarrow> onRejected err s
      | (Pending, s) \<Rightarrow> (Pending, s))"

definition then1 ::
  "'a TPromise \<times> 's \<Rightarrow> ('a \<Rightarrow> 's \<Rightarrow> 'b TPromise \<times> 's) \<Rightarrow> 'b TPromise \<times> 's" where
  "then1 p onFulfilled = then2 p onFulfilled (\<lambda>err s. (Rejected err, s))"

text \<open>
  Modelled from the spec: the transaction (\<^verbatim>\<open>vs/editor/common/services/bulkEdit\<close>) is
  not part of the sources. It accumulates the edits staged into it, in order, starting
  empty; \<^verbatim>\<open>finish()\<close> commits what has been staged.
\<close>

type_synonym 'e BulkEdit = "'e list"

definition createBulkEdit :: "'e state \<Rightarrow> 'e BulkEdit \<times> 'e state" where
  "createBulkEdit s = ([], emit CreateBulkEdit s)"

definition BulkEdit_add :: "'e BulkEdit \<Rightarrow> 'e list \<Rightarrow> 'e state \<Rightarrow> 'e BulkEdit \<times> 'e state" where
  "BulkEdit_add edit es s = (edit @ es, emit (BulkEditAdd es) s)"

definition BulkEdit_finish ::
  "'e env \<Rightarrow> 'e BulkEdit \<Rightarrow> 'e state \<Rightarrow> Selection option TPromise \<times> 'e state" where
  "BulkEdit_finish env edit s = (finish env edit, emit (BulkEditFinish edit) s)"

subsection \<open>RenameController\<close>

text \<open>
  \<^verbatim>\<open>_prepareRename\<close> (lines 155-168). The test \<^verbatim>\<open>if (result.rejectReason)\<close> is on
  the truthiness of an optional string: it holds for a present, non-empty string.
\<close>

definition prepareRename :: "'e env \<Rightarrow> string \<Rightarrow> 'e state \<Rightarrow> 'e BulkEdit TPromise \<times> 'e state" where
  "prepareRename env newName s =
     (let (edit, s1) = createBulkEdit s in
      then1 (rename env (position s1) newName, emit (Rename (position s1) newName) s1)
        (\<lambda>result s2.
           case rejectReason result of
             Some reason \<Rightarrow>
               if reason \<noteq> [] then (Rejected (JsString reason), s2)
               else (let (edit', s3) = BulkEdit_add edit (edits result) s2 in (Fulfilled edit', s3))
           | None \<Rightarrow>
               (let (edit', s3) = BulkEdit_add edit (edits result) s2 in (Fulfilled edit', s3))))"

text \<open>The sub-range of the word to highlight (lines 95-98 and 107-110).\<close>

definition run_selectionRange :: "Selection \<Rightarrow> IWordAtPosition \<Rightarrow> int \<times> int" where
  "run_selectionRange sel w =
     (let selectionStart = 0;
          selectionEnd = int (length (word w))
      in if \<not> isEmpty sel \<and> startLineNumber sel = endLineNumber sel
         then (max 0 (IRange.startColumn sel - IWordAtPosition.startColumn w),
               min (IWordAtPosition.endColumn w) (IRange.endColumn sel)
                 - IWordAtPosition.startColumn w)
         else (selectionStart, selectionEnd))"

text \<open>The range of the word (lines 100-105).\<close>

definition run_wordRange :: "Selection \<Rightarrow> IWordAtPosition \<Rightarrow> IRange" where
  "run_wordRange sel w =
     (let lineNumber = startLineNumber sel in
      \<lparr>startLineNumber = lineNumber,
       startColumn = IWordAtPosition.startColumn w,
       endLineNumber = lineNumber,
       endColumn = IWordAtPosition.endColumn w\<rparr>)"

text \<open>The handler of a prepared transaction (lines 117-123).\<close>

definition run_onEdit :: "'e env \<Rightarrow> 'e BulkEdit \<Rightarrow> 'e state \<Rightarrow> unit TPromise \<times> 'e state" where
  "run_onEdit env edit s =
     then1 (BulkEdit_finish env edit s)
       (\<lambda>result s1.
          case result of
            Some sel \<Rightarrow> (Fulfilled (), editor_setSelection sel s1)
          | None \<Rightarrow> (Fulfilled (), s1))"

text \<open>The handler of a rejected \<^verbatim>\<open>_prepareRename\<close> (lines 125-132).\<close>

definition run_onRenameError :: "rejection \<Rightarrow> 'e state \<Rightarrow> unit TPromise \<times> 'e state" where
  "run_onRenameError err s =
     (case err of
        JsString msg \<Rightarrow> (Fulfilled (), messageService_show Info msg s)
      | _ \<Rightarrow> (Rejected err, messageService_show Error rename_failed s))"

text \<open>
  The promise \<^verbatim>\<open>renameOperation\<close> (lines 117-132): the resolver step, then the commit
  or the handling of a rejected resolver step.
\<close>

definition run_renameOperation ::
  "'e env \<Rightarrow> string \<Rightarrow> 'e state \<Rightarrow> unit TPromise \<times> 'e state" where
  "run_renameOperation env newName s =
     then2 (prepareRename env newName s) (run_onEdit env) run_onRenameError"

text \<open>
  The handler of an accepted input (lines 113-136). The progress service is given the
  promise \<^verbatim>\<open>renameOperation\<close> and the delay 250; its result is not used, and the
  handler returns \<^verbatim>\<open>renameOperation\<close> itself. As the steps are sequential, the call
  of the progress service is logged after the calls the operation made.
\<close>

definition run_onInput :: "'e env \<Rightarrow> string \<Rightarrow> 'e state \<Rightarrow> unit TPromise \<times> 'e state" where
  "run_onInput env newName s =
     (let s1 = editor_focus (renameInputVisible_reset s);
          (renameOperation, s2) = run_renameOperation env newName s1;
          s3 = progressService_showWhile renameOperation 250 s2
      in (renameOperation, s3))"

text \<open>The handler of a rejected input (lines 137-144).\<close>

definition run_onInputError :: "rejection \<Rightarrow> 'e state \<Rightarrow> unit TPromise \<times> 'e state" where
  "run_onInputError err s =
     (let s1 = editor_focus (renameInputVisible_reset s) in
      if \<not> isPromiseCanceledError err then (Rejected err, s1) else (Fulfilled (), s1))"

text \<open>
  \<^verbatim>\<open>run\<close> (lines 86-145). The result is \<open>None\<close> where the code returns without a
  promise (line 92).
\<close>

definition run :: "'e env \<Rightarrow> 'e state \<Rightarrow> unit TPromise option \<times> 'e state" where
  "run env s =
     (let sel = selection s in
      case getWordAtPosition env (getStartPosition sel) of
        None \<Rightarrow> (None, s)
      | Some w \<Rightarrow>
          (let wordRange = run_wordRange sel w;
               (selectionStart, selectionEnd) = run_selectionRange sel w;
               s1 = renameInputVisible_set True s;
               s2 = emit (GetInput wordRange (word w) selectionStart selectionEnd) s1;
               (p, s3) = then2 (getInput env wordRange (word w) selectionStart selectionEnd, s2)
                           (run_onInput env) run_onInputError
           in (Some p, s3)))"

subsection \<open>Observations on the log\<close>

text \<open>The calls one execution added to the log.\<close>

definition emitted :: "'e state \<Rightarrow> 'e state \<Rightarrow> 'e event list" where
  "emitted s s' = drop (length (log s)) (log s')"

fun messagesShown :: "'e event list \<Rightarrow> (Severity \<times> string) list" where
  "messagesShown [] = []"
| "messagesShown (MessageShow sev msg # evs) = (sev, msg) # messagesShown evs"
| "messagesShown (_ # evs) = messagesShown evs"

fun editsStaged :: "'e event list \<Rightarrow> 'e list" where
  "editsStaged [] = []"
| "editsStaged (BulkEditAdd es # evs) = es @ editsStaged evs"
| "editsStaged (_ # evs) = editsStaged evs"

fun finishCalls :: "'e event list \<Rightarrow> 'e list list" where
  "finishCalls [] = []"
| "finishCalls (BulkEditFinish es # evs) = es # finishCalls evs"
| "finishCalls (_ # evs) = finishCalls evs"




fun inputsShown :: "'e event list \<Rightarrow> (IRange \<times> string \<times> int \<times> int) list" where
  "inputsShown [] = []"
| "inputsShown (GetInput r t a b # evs) = (r, t, a, b) # inputsShown evs"
| "inputsShown (_ # evs) = inputsShown evs"

text \<open>
  The promise the input field returns in an interaction on the word \<open>w\<close>: the call of
  line 113 with the arguments \<^verbatim>\<open>run\<close> computes.
\<close>

definition collectorOutcome :: "'e env \<Rightarrow> 'e state \<Rightarrow> IWordAtPosition \<Rightarrow> string TPromise" where
  "collectorOutcome env s w =
     getInput env (run_wordRange (selection s) w) (word w)
       (fst (run_selectionRange (selection s) w)) (snd (run_selectionRange (selection s) w))"

subsection \<open>RenameAction\<close>

text \<open>
  What the action reads of an editor: the rename resolvers registered for its model, the
  model's \<^verbatim>\<open>hasEditableRange()\<close>, and the read-only flag of its configuration.
\<close>

record ICommonCodeEditor =
  renameProviders :: "nat list"
  hasEditableRange :: bool
  readOnly :: bool

text \<open>
  Modelled from the spec: \<^verbatim>\<open>RenameProviderRegistry\<close> (\<^verbatim>\<open>vs/editor/common/modes\<close>) is not
  part of the sources. \<^verbatim>\<open>has(model)\<close> holds when at least one resolver is registered for
  the document.
\<close>

definition RenameProviderRegistry_has :: "ICommonCodeEditor \<Rightarrow> bool" where
  "RenameProviderRegistry_has editor \<longleftrightarrow> renameProviders editor \<noteq> []"

text \<open>
  Modelled from the spec: the base class \<^verbatim>\<open>EditorAction\<close>
  (\<^verbatim>\<open>vs/editor/common/editorCommonExtensions\<close>) is not part of the sources. The fourth
  argument of its constructor, which \<^verbatim>\<open>RenameAction\<close> passes as \<^verbatim>\<open>true\<close> (line 180), says
  that the action needs a writable editor; the base \<^verbatim>\<open>enabled\<close> then holds only when the
  document is writable.
\<close>

definition RenameAction_needsWritableEditor :: bool where
  "RenameAction_needsWritableEditor = True"

definition EditorAction_enabled :: "bool \<Rightarrow> ICommonCodeEditor \<Rightarrow> bool" where
  "EditorAction_enabled needsWritableEditor editor =
     (if needsWritableEditor then \<not> readOnly editor else True)"

text \<open>
  Modelled from the spec: the context keys and their expressions
  (\<^verbatim>\<open>vs/platform/keybinding\<close>, \<^verbatim>\<open>vs/editor/common/editorCommon\<close>) are not part of the
  sources. \<^verbatim>\<open>ModeContextKeys.hasRenameProvider\<close> holds when a resolver is registered for
  the document, \<^verbatim>\<open>EditorContextKeys.Writable\<close> when the document is writable, and
  \<^verbatim>\<open>KbExpr.and\<close> is the conjunction of its arguments.
\<close>

definition ModeContextKeys_hasRenameProvider :: "ICommonCodeEditor \<Rightarrow> bool" where
  "ModeContextKeys_hasRenameProvider editor = RenameProviderRegistry_has editor"

definition EditorContextKeys_Writable :: "ICommonCodeEditor \<Rightarrow> bool" where
  "EditorContextKeys_Writable editor = (\<not> readOnly editor)"

definition KbExpr_and ::
  "(ICommonCodeEditor \<Rightarrow> bool) \<Rightarrow> (ICommonCodeEditor \<Rightarrow> bool) \<Rightarrow> ICommonCodeEditor \<Rightarrow> bool" where
  "KbExpr_and a b editor = (a editor \<and> b editor)"

text \<open>The condition of the menu entry (line 191).\<close>

definition RenameAction_menuOpts_kbExpr :: "ICommonCodeEditor \<Rightarrow> bool" where
  "RenameAction_menuOpts_kbExpr =
     KbExpr_and ModeContextKeys_hasRenameProvider EditorContextKeys_Writable"

text \<open>
  \<^verbatim>\<open>supported\<close> (lines 195-200); the result of the base class's \<^verbatim>\<open>supported\<close> is a
  parameter.
\<close>

definition RenameAction_supported :: "bool \<Rightarrow> ICommonCodeEditor \<Rightarrow> bool" where
  "RenameAction_supported super_supported editor =
     (if \<not> super_supported then False
      else RenameProviderRegistry_has editor \<and> \<not> hasEditableRange editor)"

text \<open>\<^verbatim>\<open>enabled\<close> (lines 202-207).\<close>

definition RenameAction_enabled :: "ICommonCodeEditor \<Rightarrow> bool" where
  "RenameAction_enabled editor =
     (if \<not> EditorAction_enabled RenameAction_needsWritableEditor editor then False
      else RenameProviderRegistry_has editor)"

subsection \<open>Example interactions\<close>

text \<open>
  The word \<^verbatim>\<open>foo\<close> at columns 5 to 8 of line 1, an editor whose selection runs from
  column \<open>c1\<close> to column \<open>c2\<close> of that line, and collaborators that settle as given.
\<close>

definition ex_word :: IWordAtPosition where
  "ex_word = \<lparr>word = ''foo'', startColumn = 5, endColumn = 8\<rparr>"

definition ex_state :: "int \<Rightarrow> int \<Rightarrow> nat state" where
  "ex_state c1 c2 =
     \<lparr>renameInputVisible = False,
      selection = \<lparr>startLineNumber = 1, startColumn = c1, endLineNumber = 1, endColumn = c2\<rparr>,
      position = \<lparr>lineNumber = 1, column = c1\<rparr>,
      log = []\<rparr>"

definition ex_env ::
  "string TPromise \<Rightarrow> nat IRenameResult TPromise \<Rightarrow> Selection option TPromise \<Rightarrow> nat env" where
  "ex_env input resolved finished =
     \<lparr>getWordAtPosition =
        (\<lambda>p. if lineNumber p = 1 \<and> 5 \<le> column p \<and> column p \<le> 8 then Some ex_word else None),
      getInput = (\<lambda>r t a b. input),
      rename = (\<lambda>p n. resolved),
      finish = (\<lambda>es. finished)\<rparr>"

definition ex_selection :: Selection where
  "ex_selection = \<lparr>startLineNumber = 1, startColumn = 8, endLineNumber = 1, endColumn = 8\<rparr>"

text \<open>A resolver result with two edits, and one that carries the reject reason \<open>X\<close>.\<close>

definition ex_edits :: "nat IRenameResult" where
  "ex_edits = \<lparr>edits = [1, 2], rejectReason = None\<rparr>"

definition ex_reject :: "string \<Rightarrow> nat IRenameResult" where
  "ex_reject X = \<lparr>edits = [], rejectReason = Some X\<rparr>"

definition ex_editor :: "nat list \<Rightarrow> bool \<Rightarrow> bool \<Rightarrow> ICommonCodeEditor" where
  "ex_editor providers editable ro =
     \<lparr>renameProviders = providers, hasEditableRange = editable, readOnly = ro\<rparr>"

section \<open>Properties\<close>

subsection \<open>Auxiliary facts\<close>

lemmas collab_defs = emit_def renameInputVisible_set_def renameInputVisible_reset_def
  CONTEXT_RENAME_INPUT_VISIBLE_default_def editor_focus_def editor_setSelection_def
  messageService_show_def progressService_showWhile_def createBulkEdit_def BulkEdit_add_def
  BulkEdit_finish_def then1_def then2_def

lemmas handler_defs = prepareRename_def run_onEdit_def run_onRenameError_def
  run_renameOperation_def run_onInput_def
  run_onInputError_def

lemmas ex_defs = ex_word_def ex_state_def ex_env_def ex_selection_def ex_edits_def
  ex_reject_def collectorOutcome_def getStartPosition_def run_wordRange_def
  run_selectionRange_def isEmpty_def

lemmas eval_defs = run_def handler_defs collab_defs ex_defs emitted_def Let_def

lemmas action_defs = RenameAction_enabled_def RenameAction_supported_def
  RenameAction_menuOpts_kbExpr_def KbExpr_and_def ModeContextKeys_hasRenameProvider_def
  EditorContextKeys_Writable_def RenameProviderRegistry_has_def EditorAction_enabled_def
  RenameAction_needsWritableEditor_def ex_editor_def

lemma run_onInput_visible: "\<not> renameInputVisible (snd (run_onInput env n s))"
  by (auto simp: handler_defs collab_defs Let_def
      split: prod.splits TPromise.splits option.splits rejection.splits if_splits)

lemma run_onInputError_visible: "\<not> renameInputVisible (snd (run_onInputError err s))"
  by (auto simp: handler_defs collab_defs Let_def)

lemma run_onInput_log:
  "\<exists>evs. log (snd (run_onInput env n s)) = log s @ ContextKeyReset # EditorFocus # evs
     \<and> inputsShown evs = []"
  by (auto simp: handler_defs collab_defs Let_def
      split: prod.splits TPromise.splits option.splits rejection.splits if_splits)

lemma run_onInputError_log:
  "log (snd (run_onInputError err s)) = log s @ [ContextKeyReset, EditorFocus]"
  by (auto simp: handler_defs collab_defs Let_def)

text \<open>With a word under the cursor, \<^verbatim>\<open>run\<close> is lines 112-144.\<close>

lemma run_word:
  assumes "getWordAtPosition env (getStartPosition (selection s)) = Some w"
  shows "run env s =
     (let s2 = emit (GetInput (run_wordRange (selection s) w) (word w)
                      (fst (run_selectionRange (selection s) w))
                      (snd (run_selectionRange (selection s) w)))
                 (renameInputVisible_set True s);
          r = then2 (collectorOutcome env s w, s2) (run_onInput env) run_onInputError
      in (Some (fst r), snd r))"
  using assms by (simp add: run_def Let_def collectorOutcome_def split: prod.splits)

lemma run_log:
  assumes "getWordAtPosition env (getStartPosition (selection s)) = Some w"
  shows "\<exists>evs. emitted s (snd (run env s)) =
           ContextKeySet True #
           GetInput (run_wordRange (selection s) w) (word w)
             (fst (run_selectionRange (selection s) w))
             (snd (run_selectionRange (selection s) w)) # evs
           \<and> inputsShown evs = []"
proof (cases "collectorOutcome env s w")
  case (Fulfilled n)
  define s2 where "s2 = emit (GetInput (run_wordRange (selection s) w) (word w)
                      (fst (run_selectionRange (selection s) w))
                      (snd (run_selectionRange (selection s) w)))
                 (renameInputVisible_set True s)"
  obtain evs where "log (snd (run_onInput env n s2)) = log s2 @ ContextKeyReset # EditorFocus # evs"
    and "inputsShown evs = []"
    using run_onInput_log by blast
  then show ?thesis using Fulfilled
    by (simp add: run_word [OF assms] Let_def then2_def emitted_def emit_def
        renameInputVisible_set_def s2_def)
next
  case (Rejected err)
  then show ?thesis
    by (simp add: run_word [OF assms] Let_def then2_def emitted_def run_onInputError_log)
       (simp add: emit_def renameInputVisible_set_def)
next
  case Pending
  then show ?thesis
    by (simp add: run_word [OF assms] Let_def then2_def emitted_def emit_def
        renameInputVisible_set_def)
qed

lemma run_settled_visible:
  assumes "getWordAtPosition env (getStartPosition (selection s)) = Some w"
  shows "renameInputVisible (snd (run env s)) \<longleftrightarrow> collectorOutcome env s w = Pending"
  by (cases "collectorOutcome env s w")
     (simp_all add: run_word [OF assms] Let_def then2_def run_onInput_visible
        run_onInputError_visible,
      simp add: emit_def renameInputVisible_set_def)

lemma run_pending:
  assumes "getWordAtPosition env (getStartPosition (selection s)) = Some w"
    and "collectorOutcome env s w = Pending"
  shows "fst (run env s) = Some Pending"
  using assms(2) by (simp add: run_word [OF assms(1)] Let_def then2_def)

lemma run_accepted:
  assumes "getWordAtPosition env (getStartPosition (selection s)) = Some w"
    and "collectorOutcome env s w = Fulfilled newName"
  shows "run env s =
     (let r = run_onInput env newName
                (emit (GetInput (run_wordRange (selection s) w) (word w)
                        (fst (run_selectionRange (selection s) w))
                        (snd (run_selectionRange (selection s) w)))
                   (renameInputVisible_set True s))
      in (Some (fst r), snd r))"
  using assms(2) by (simp add: run_word [OF assms(1)] then2_def Let_def)

text \<open>
  A resolver that rejects with a value that is not a string: the handler of lines
  125-132 shows the failure message and passes the rejection on.
\<close>

lemma run_rename_failure:
  assumes "getWordAtPosition env (getStartPosition (selection s)) = Some w"
    and "collectorOutcome env s w = Fulfilled newName"
    and "rename env (position s) newName = Rejected err"
    and "\<forall>msg. err \<noteq> JsString msg"
  shows "fst (run env s) = Some (Rejected err)
       \<and> messagesShown (emitted s (snd (run env s))) = [(Error, rename_failed)]
       \<and> finishCalls (emitted s (snd (run env s))) = []
       \<and> \<not> renameInputVisible (snd (run env s))"
  using assms(3,4)
  by (cases err)
     (simp_all add: run_accepted [OF assms(1,2)] handler_defs collab_defs emitted_def Let_def)

text \<open>
  A \<^verbatim>\<open>finish()\<close> that rejects: the rejection arises inside the first handler of the
  \<^verbatim>\<open>then\<close> of line 117, so the second handler does not see it. No message is shown,
  whatever the rejection is.
\<close>

lemma run_finish_failure:
  assumes "getWordAtPosition env (getStartPosition (selection s)) = Some w"
    and "collectorOutcome env s w = Fulfilled newName"
    and "rename env (position s) newName = Fulfilled result"
    and "rejectReason result = None \<or> rejectReason result = Some []"
    and "finish env (edits result) = Rejected err"
  shows "fst (run env s) = Some (Rejected err)
       \<and> messagesShown (emitted s (snd (run env s))) = []
       \<and> finishCalls (emitted s (snd (run env s))) = [edits result]
       \<and> \<not> renameInputVisible (snd (run env s))"
  using assms(3-5)
  by (auto simp: run_accepted [OF assms(1,2)] handler_defs collab_defs emitted_def Let_def)

text \<open>
  On every accepted input the progress service is called once, with the delay 250 and
  with the promise that \<^verbatim>\<open>run\<close> returns (lines 134-135), however the resolver and
  the transaction settle.
\<close>

lemma run_showWhile:
  assumes "getWordAtPosition env (getStartPosition (selection s)) = Some w"
    and "collectorOutcome env s w = Fulfilled newName"
  shows "\<exists>p. fst (run env s) = Some p
           \<and> [(q, d). ProgressShowWhile q d \<leftarrow> emitted s (snd (run env s))] = [(p, 250)]"
  by (auto simp: run_accepted [OF assms(1,2)] handler_defs collab_defs emitted_def Let_def
      split: prod.splits TPromise.splits option.splits rejection.splits if_splits)




subsection \<open>The claims\<close>

text \<open>
  C7: where the document model reports no word at the start of the selection,
  \<^verbatim>\<open>run\<close> returns at once without a promise and leaves the state as it was: the context
  key keeps its value, the selection is unchanged and nothing is added to the log, so
  the input field is not shown, no message is shown and no transaction is created or
  finished.
\<close>

theorem run_no_word:
  assumes "getWordAtPosition env (getStartPosition (selection s)) = None"
  shows "run env s = (None, s) \<and> emitted s (snd (run env s)) = []"
  using assms by (simp add: run_def emitted_def)

theorem run_no_word_witness:
  "getWordAtPosition (ex_env Pending Pending Pending) (getStartPosition (selection (ex_state 9 9)))
     = None
   \<and> run (ex_env Pending Pending Pending) (ex_state 9 9) = (None, ex_state 9 9)
   \<and> emitted (ex_state 9 9) (snd (run (ex_env Pending Pending Pending) (ex_state 9 9))) = []"
proof -
  have h: "getWordAtPosition (ex_env Pending Pending Pending)
             (getStartPosition (selection (ex_state 9 9))) = None"
    by (simp add: ex_defs)
  show ?thesis using h run_no_word [OF h] by (simp add: emitted_def)
qed

text \<open>
  C1: in every interaction in which a word is found, the context key is set to true
  immediately before the input field is shown (the first two calls of \<^verbatim>\<open>run\<close>), and
  the flag is true for as long as the input field's promise is pending, whatever it was
  before. Whenever the promise \<^verbatim>\<open>run\<close> returns has settled, on whichever path, the flag
  is false again; it is false as soon as the input field's promise has settled.
\<close>

theorem run_visibility:
  assumes "getWordAtPosition env (getStartPosition (selection s)) = Some w"
  shows "take 2 (emitted s (snd (run env s))) =
           [ContextKeySet True,
            GetInput (run_wordRange (selection s) w) (word w)
              (fst (run_selectionRange (selection s) w))
              (snd (run_selectionRange (selection s) w))]
         \<and> (collectorOutcome env s w = Pending \<longrightarrow> renameInputVisible (snd (run env s)))
         \<and> (fst (run env s) \<noteq> Some Pending \<longrightarrow> \<not> renameInputVisible (snd (run env s)))
         \<and> (collectorOutcome env s w \<noteq> Pending \<longrightarrow> \<not> renameInputVisible (snd (run env s)))"
proof -
  obtain evs where "emitted s (snd (run env s)) =
           ContextKeySet True #
           GetInput (run_wordRange (selection s) w) (word w)
             (fst (run_selectionRange (selection s) w))
             (snd (run_selectionRange (selection s) w)) # evs"
    using run_log [OF assms] by blast
  then have "take 2 (emitted s (snd (run env s))) =
           [ContextKeySet True,
            GetInput (run_wordRange (selection s) w) (word w)
              (fst (run_selectionRange (selection s) w))
              (snd (run_selectionRange (selection s) w))]"
    by (simp add: numeral_2_eq_2)
  moreover have "collectorOutcome env s w = Pending \<longrightarrow> renameInputVisible (snd (run env s))"
    using run_settled_visible [OF assms] by blast
  moreover have "fst (run env s) \<noteq> Some Pending \<longrightarrow> \<not> renameInputVisible (snd (run env s))"
    using run_pending [OF assms] run_settled_visible [OF assms] by blast
  moreover have "collectorOutcome env s w \<noteq> Pending \<longrightarrow> \<not> renameInputVisible (snd (run env s))"
    using run_settled_visible [OF assms] by blast
  ultimately show ?thesis by blast
qed

text \<open>
  An input field that stays open, from a state in which the flag is false, and the
  terminal paths: commit, reject reason, cancellation, a resolver that fails and a
  \<^verbatim>\<open>finish()\<close> that fails.
\<close>

theorem run_visibility_witness:
  "getWordAtPosition (ex_env (Fulfilled ''bar'') (Fulfilled ex_edits) (Fulfilled (Some ex_selection)))
     (getStartPosition (selection (ex_state 5 5))) = Some ex_word
   \<and> fst (run (ex_env (Fulfilled ''bar'') (Fulfilled ex_edits) (Fulfilled (Some ex_selection)))
        (ex_state 5 5)) = Some (Fulfilled ())
   \<and> \<not> renameInputVisible
        (snd (run (ex_env (Fulfilled ''bar'') (Fulfilled ex_edits) (Fulfilled (Some ex_selection)))
           (ex_state 5 5)))
   \<and> fst (run (ex_env (Fulfilled ''bar'') (Fulfilled (ex_reject ''no'')) (Fulfilled None))
        (ex_state 5 5)) = Some (Fulfilled ())
   \<and> \<not> renameInputVisible
        (snd (run (ex_env (Fulfilled ''bar'') (Fulfilled (ex_reject ''no'')) (Fulfilled None))
           (ex_state 5 5)))
   \<and> fst (run (ex_env (Rejected Canceled) Pending Pending) (ex_state 5 5)) = Some (Fulfilled ())
   \<and> \<not> renameInputVisible (snd (run (ex_env (Rejected Canceled) Pending Pending) (ex_state 5 5)))
   \<and> fst (run (ex_env (Fulfilled ''bar'') (Rejected (Failure 0)) Pending) (ex_state 5 5))
       = Some (Rejected (Failure 0))
   \<and> \<not> renameInputVisible
        (snd (run (ex_env (Fulfilled ''bar'') (Rejected (Failure 0)) Pending) (ex_state 5 5)))
   \<and> fst (run (ex_env (Fulfilled ''bar'') (Fulfilled ex_edits) (Rejected (Failure 1)))
        (ex_state 5 5)) = Some (Rejected (Failure 1))
   \<and> \<not> renameInputVisible
        (snd (run (ex_env (Fulfilled ''bar'') (Fulfilled ex_edits) (Rejected (Failure 1)))
           (ex_state 5 5)))
   \<and> \<not> renameInputVisible (ex_state 5 5)
   \<and> collectorOutcome (ex_env Pending Pending Pending) (ex_state 5 5) ex_word = Pending
   \<and> renameInputVisible (snd (run (ex_env Pending Pending Pending) (ex_state 5 5)))"
proof -
  let ?s = "ex_state 5 5"
  let ?e1 = "ex_env (Fulfilled ''bar'') (Fulfilled ex_edits) (Fulfilled (Some ex_selection))"
  let ?e2 = "ex_env (Fulfilled ''bar'') (Fulfilled (ex_reject ''no'')) (Fulfilled None)"
  let ?e3 = "ex_env (Rejected Canceled) Pending Pending"
  let ?e4 = "ex_env (Fulfilled ''bar'') (Rejected (Failure 0)) Pending"
  let ?e5 = "ex_env (Fulfilled ''bar'') (Fulfilled ex_edits) (Rejected (Failure 1))"
  have w: "getWordAtPosition (ex_env a b c) (getStartPosition (selection ?s)) = Some ex_word"
    for a b c
    by (simp add: ex_defs)
  have o1: "fst (run ?e1 ?s) = Some (Fulfilled ())" by (simp add: eval_defs)
  have o2: "fst (run ?e2 ?s) = Some (Fulfilled ())" by (simp add: eval_defs)
  have o3: "fst (run ?e3 ?s) = Some (Fulfilled ())" by (simp add: eval_defs)
  have o4: "fst (run ?e4 ?s) = Some (Rejected (Failure 0))" by (simp add: eval_defs)
  have o5: "fst (run ?e5 ?s) = Some (Rejected (Failure 1))" by (simp add: eval_defs)
  have f0: "\<not> renameInputVisible ?s" by (simp add: ex_state_def)
  have c0: "collectorOutcome (ex_env Pending Pending Pending) ?s ex_word = Pending"
    by (simp add: ex_defs)
  have v0: "renameInputVisible (snd (run (ex_env Pending Pending Pending) ?s))"
    using c0 run_visibility [OF w [of Pending Pending Pending]] by blast
  show ?thesis
    using w o1 o2 o3 o4 o5 f0 c0 v0
      run_visibility [OF w [of "Fulfilled ''bar''" "Fulfilled ex_edits" "Fulfilled (Some ex_selection)"]]
      run_visibility [OF w [of "Fulfilled ''bar''" "Fulfilled (ex_reject ''no'')" "Fulfilled None"]]
      run_visibility [OF w [of "Rejected Canceled" Pending Pending]]
      run_visibility [OF w [of "Fulfilled ''bar''" "Rejected (Failure 0)" Pending]]
      run_visibility [OF w [of "Fulfilled ''bar''" "Fulfilled ex_edits" "Rejected (Failure 1)"]]
    by simp
qed

text \<open>
  C2: the input field is shown once, on the range and text of the word, with the
  sub-range \<open>[0, token length]\<close> when the selection is empty or spans several lines, and
  otherwise with \<open>start = max 0 (selectionStart - tokenStart)\<close> and
  \<open>end = min tokenEnd selectionEnd - tokenStart\<close>. Where the word contains the start of
  the selection (it is the word found at that position), the selection does not end
  before it starts and the word's columns span its text, that sub-range is the
  intersection of selection and word relative to the word's start, and lies within
  \<open>[0, token length]\<close>.
\<close>

theorem run_highlight:
  assumes "getWordAtPosition env (getStartPosition (selection s)) = Some w"
  shows "let sel = selection s;
             tokenStart = IWordAtPosition.startColumn w;
             tokenEnd = IWordAtPosition.endColumn w;
             tokenLength = int (length (word w));
             whole = (isEmpty sel \<or> startLineNumber sel \<noteq> endLineNumber sel);
             selectionStart = (if whole then 0 else max 0 (IRange.startColumn sel - tokenStart));
             selectionEnd = (if whole then tokenLength
                             else min tokenEnd (IRange.endColumn sel) - tokenStart)
         in inputsShown (emitted s (snd (run env s))) =
              [(run_wordRange sel w, word w, selectionStart, selectionEnd)]
            \<and> (\<not> whole \<and> tokenStart \<le> IRange.startColumn sel \<and> IRange.startColumn sel \<le> tokenEnd
                 \<and> IRange.startColumn sel \<le> IRange.endColumn sel
                 \<and> tokenEnd - tokenStart = tokenLength
               \<longrightarrow> selectionStart = max tokenStart (IRange.startColumn sel) - tokenStart
                   \<and> selectionEnd = min tokenEnd (IRange.endColumn sel) - tokenStart
                   \<and> 0 \<le> selectionStart \<and> selectionStart \<le> selectionEnd
                   \<and> selectionEnd \<le> tokenLength)"
proof -
  obtain evs where "emitted s (snd (run env s)) =
           ContextKeySet True #
           GetInput (run_wordRange (selection s) w) (word w)
             (fst (run_selectionRange (selection s) w))
             (snd (run_selectionRange (selection s) w)) # evs" and "inputsShown evs = []"
    using run_log [OF assms] by blast
  then have "inputsShown (emitted s (snd (run env s))) =
     [(run_wordRange (selection s) w, word w, fst (run_selectionRange (selection s) w),
       snd (run_selectionRange (selection s) w))]"
    by simp
  then show ?thesis
    by (auto simp: Let_def run_selectionRange_def)
qed

text \<open>
  The word \<^verbatim>\<open>foo\<close> at columns 5 to 8: the selection of columns 6 to 7 gives the
  sub-range \<open>[1, 2]\<close>, the empty selection at column 5 gives \<open>[0, 3]\<close>.
\<close>

theorem run_highlight_witness:
  "getWordAtPosition (ex_env Pending Pending Pending) (getStartPosition (selection (ex_state 6 7)))
     = Some ex_word
   \<and> inputsShown (emitted (ex_state 6 7) (snd (run (ex_env Pending Pending Pending) (ex_state 6 7))))
     = [(\<lparr>startLineNumber = 1, startColumn = 5, endLineNumber = 1, endColumn = 8\<rparr>, ''foo'', 1, 2)]
   \<and> inputsShown (emitted (ex_state 5 5) (snd (run (ex_env Pending Pending Pending) (ex_state 5 5))))
     = [(\<lparr>startLineNumber = 1, startColumn = 5, endLineNumber = 1, endColumn = 8\<rparr>, ''foo'', 0, 3)]"
proof -
  have w: "getWordAtPosition (ex_env Pending Pending Pending)
             (getStartPosition (selection (ex_state c1 c2))) = Some ex_word"
    if "5 \<le> c1" "c1 \<le> 8" for c1 c2
    using that by (simp add: ex_defs)
  have w1: "getWordAtPosition (ex_env Pending Pending Pending)
             (getStartPosition (selection (ex_state 6 7))) = Some ex_word"
    by (rule w) simp_all
  have w2: "getWordAtPosition (ex_env Pending Pending Pending)
             (getStartPosition (selection (ex_state 5 5))) = Some ex_word"
    by (rule w) simp_all
  show ?thesis
    using w1 run_highlight [OF w1] run_highlight [OF w2]
    by (simp add: Let_def ex_word_def ex_state_def isEmpty_def run_wordRange_def)
qed

text \<open>
  C3, amended: where the resolver returns a result that carries a non-empty reject
  reason \<open>X\<close>, exactly one message is shown, of severity Info and with the text \<open>X\<close>;
  no edit is staged, \<^verbatim>\<open>finish()\<close> is not called (no document is modified), the selection
  is unchanged, the flag is false, and the promise of \<^verbatim>\<open>run\<close> is fulfilled.
\<close>

theorem run_rejectReason:
  assumes "getWordAtPosition env (getStartPosition (selection s)) = Some w"
    and "collectorOutcome env s w = Fulfilled newName"
    and "rename env (position s) newName = Fulfilled result"
    and "rejectReason result = Some X"
    and "X \<noteq> []"
  shows "fst (run env s) = Some (Fulfilled ())
       \<and> messagesShown (emitted s (snd (run env s))) = [(Info, X)]
       \<and> editsStaged (emitted s (snd (run env s))) = []
       \<and> finishCalls (emitted s (snd (run env s))) = []
       \<and> selection (snd (run env s)) = selection s
       \<and> \<not> renameInputVisible (snd (run env s))"
  using assms(3-5)
  by (simp add: run_accepted [OF assms(1,2)] handler_defs collab_defs emitted_def Let_def)

theorem run_rejectReason_witness:
  "getWordAtPosition (ex_env (Fulfilled ''bar'') (Fulfilled (ex_reject ''no'')) (Fulfilled None))
     (getStartPosition (selection (ex_state 5 5))) = Some ex_word
   \<and> collectorOutcome (ex_env (Fulfilled ''bar'') (Fulfilled (ex_reject ''no'')) (Fulfilled None))
       (ex_state 5 5) ex_word = Fulfilled ''bar''
   \<and> rename (ex_env (Fulfilled ''bar'') (Fulfilled (ex_reject ''no'')) (Fulfilled None))
       (position (ex_state 5 5)) ''bar'' = Fulfilled (ex_reject ''no'')
   \<and> rejectReason (ex_reject ''no'') = Some ''no''
   \<and> fst (run (ex_env (Fulfilled ''bar'') (Fulfilled (ex_reject ''no'')) (Fulfilled None))
        (ex_state 5 5)) = Some (Fulfilled ())
   \<and> messagesShown (emitted (ex_state 5 5)
        (snd (run (ex_env (Fulfilled ''bar'') (Fulfilled (ex_reject ''no'')) (Fulfilled None))
           (ex_state 5 5)))) = [(Info, ''no'')]
   \<and> editsStaged (emitted (ex_state 5 5)
        (snd (run (ex_env (Fulfilled ''bar'') (Fulfilled (ex_reject ''no'')) (Fulfilled None))
           (ex_state 5 5)))) = []
   \<and> finishCalls (emitted (ex_state 5 5)
        (snd (run (ex_env (Fulfilled ''bar'') (Fulfilled (ex_reject ''no'')) (Fulfilled None))
           (ex_state 5 5)))) = []"
proof -
  let ?env = "ex_env (Fulfilled ''bar'') (Fulfilled (ex_reject ''no'')) (Fulfilled None)"
  let ?s = "ex_state 5 5"
  have w: "getWordAtPosition ?env (getStartPosition (selection ?s)) = Some ex_word"
    by (simp add: ex_defs)
  have c: "collectorOutcome ?env ?s ex_word = Fulfilled ''bar''"
    by (simp add: ex_defs)
  have r: "rename ?env (position ?s) ''bar'' = Fulfilled (ex_reject ''no'')"
    by (simp add: ex_defs)
  have x: "rejectReason (ex_reject ''no'') = Some ''no''" "''no'' \<noteq> []"
    by (simp_all add: ex_reject_def)
  show ?thesis
    using w c r x(1) run_rejectReason [OF w c r x] by simp
qed

text \<open>
  C3 as stated fails for the empty reject reason: the test of line 162 is on the
  truthiness of \<^verbatim>\<open>result.rejectReason\<close>, and the empty string is falsy. The result is
  then staged and finished like a result without a reject reason, and no message with
  the (empty) text is shown.
\<close>

theorem run_empty_rejectReason_counterexample:
  "rename (ex_env (Fulfilled ''bar'') (Fulfilled (ex_reject [])) (Fulfilled None))
     (position (ex_state 5 5)) ''bar'' = Fulfilled (ex_reject [])
   \<and> rejectReason (ex_reject []) = Some []
   \<and> messagesShown (emitted (ex_state 5 5)
        (snd (run (ex_env (Fulfilled ''bar'') (Fulfilled (ex_reject [])) (Fulfilled None))
           (ex_state 5 5)))) \<noteq> [(Info, [])]
   \<and> messagesShown (emitted (ex_state 5 5)
        (snd (run (ex_env (Fulfilled ''bar'') (Fulfilled (ex_reject [])) (Fulfilled None))
           (ex_state 5 5)))) = []
   \<and> finishCalls (emitted (ex_state 5 5)
        (snd (run (ex_env (Fulfilled ''bar'') (Fulfilled (ex_reject [])) (Fulfilled None))
           (ex_state 5 5)))) = [[]]"
  by (simp add: eval_defs)

text \<open>
  C4: where the input field's promise is rejected, \<^verbatim>\<open>run\<close> resets the flag and returns
  the focus to the editor and does nothing else: no message, no staged edit, no
  \<^verbatim>\<open>finish()\<close>. A rejection that is the cancellation is swallowed (the promise of
  \<^verbatim>\<open>run\<close> is fulfilled); any other rejection is passed on, after the reset and the focus.
\<close>

theorem run_collector_rejected:
  assumes "getWordAtPosition env (getStartPosition (selection s)) = Some w"
    and "collectorOutcome env s w = Rejected err"
  shows "(isPromiseCanceledError err \<longrightarrow> fst (run env s) = Some (Fulfilled ()))
       \<and> (\<not> isPromiseCanceledError err \<longrightarrow> fst (run env s) = Some (Rejected err))
       \<and> emitted s (snd (run env s)) =
           [ContextKeySet True,
            GetInput (run_wordRange (selection s) w) (word w)
              (fst (run_selectionRange (selection s) w))
              (snd (run_selectionRange (selection s) w)),
            ContextKeyReset, EditorFocus]
       \<and> messagesShown (emitted s (snd (run env s))) = []
       \<and> editsStaged (emitted s (snd (run env s))) = []
       \<and> finishCalls (emitted s (snd (run env s))) = []
       \<and> \<not> renameInputVisible (snd (run env s))"
  using assms(2)
  by (simp add: run_word [OF assms(1)] run_onInputError_def collab_defs emitted_def Let_def)

theorem run_collector_rejected_witness:
  "collectorOutcome (ex_env (Rejected Canceled) Pending Pending) (ex_state 5 5) ex_word
     = Rejected Canceled
   \<and> fst (run (ex_env (Rejected Canceled) Pending Pending) (ex_state 5 5)) = Some (Fulfilled ())
   \<and> messagesShown (emitted (ex_state 5 5)
        (snd (run (ex_env (Rejected Canceled) Pending Pending) (ex_state 5 5)))) = []
   \<and> \<not> renameInputVisible (snd (run (ex_env (Rejected Canceled) Pending Pending) (ex_state 5 5)))
   \<and> fst (run (ex_env (Rejected (Failure 7)) Pending Pending) (ex_state 5 5))
       = Some (Rejected (Failure 7))
   \<and> \<not> renameInputVisible
        (snd (run (ex_env (Rejected (Failure 7)) Pending Pending) (ex_state 5 5)))"
proof -
  have w: "getWordAtPosition (ex_env a Pending Pending)
             (getStartPosition (selection (ex_state 5 5))) = Some ex_word" for a
    by (simp add: ex_defs)
  have c: "collectorOutcome (ex_env a Pending Pending) (ex_state 5 5) ex_word = a" for a
    by (simp add: ex_defs)
  show ?thesis
    using c [of "Rejected Canceled"]
      run_collector_rejected [OF w c, of Canceled]
      run_collector_rejected [OF w c, of "Failure 7"]
    by simp
qed

text \<open>
  C5: the code at an interaction in which the input is accepted, the resolver returns
  two edits and \<^verbatim>\<open>finish()\<close> rejects with a value that is not a string. The rejection is
  passed to the caller and the flag is false, but no message is shown: the handler that
  shows the failure message is the second argument of the \<^verbatim>\<open>then\<close> whose first argument
  calls \<^verbatim>\<open>finish()\<close>, so it sees the rejections of \<^verbatim>\<open>_prepareRename\<close> only.
\<close>

theorem run_finish_failure_example:
  "fst (run (ex_env (Fulfilled ''bar'') (Fulfilled ex_edits) (Rejected (Failure 0))) (ex_state 5 5))
     = Some (Rejected (Failure 0))
   \<and> messagesShown (emitted (ex_state 5 5)
        (snd (run (ex_env (Fulfilled ''bar'') (Fulfilled ex_edits) (Rejected (Failure 0)))
           (ex_state 5 5)))) = []
   \<and> finishCalls (emitted (ex_state 5 5)
        (snd (run (ex_env (Fulfilled ''bar'') (Fulfilled ex_edits) (Rejected (Failure 0)))
           (ex_state 5 5)))) = [[1, 2]]
   \<and> \<not> renameInputVisible
        (snd (run (ex_env (Fulfilled ''bar'') (Fulfilled ex_edits) (Rejected (Failure 0)))
           (ex_state 5 5)))"
  by (simp add: eval_defs)

text \<open>
  C6: where the input is accepted, the resolver returns a result without a reject
  reason and \<^verbatim>\<open>finish()\<close> is fulfilled, the edits staged are exactly the resolver's, in
  order; \<^verbatim>\<open>finish()\<close> is called once, on a transaction that holds exactly those edits;
  a returned selection becomes the editor's selection, and without one the selection is
  unchanged; no message is shown and the promise of \<^verbatim>\<open>run\<close> is fulfilled.
\<close>

theorem run_commit:
  assumes "getWordAtPosition env (getStartPosition (selection s)) = Some w"
    and "collectorOutcome env s w = Fulfilled newName"
    and "rename env (position s) newName = Fulfilled result"
    and "rejectReason result = None \<or> rejectReason result = Some []"
    and "finish env (edits result) = Fulfilled S"
  shows "editsStaged (emitted s (snd (run env s))) = edits result
       \<and> finishCalls (emitted s (snd (run env s))) = [edits result]
       \<and> selection (snd (run env s)) = (case S of Some sel \<Rightarrow> sel | None \<Rightarrow> selection s)
       \<and> messagesShown (emitted s (snd (run env s))) = []
       \<and> fst (run env s) = Some (Fulfilled ())"
  using assms(3-5)
  by (auto simp: run_accepted [OF assms(1,2)] handler_defs collab_defs emitted_def Let_def
      split: option.splits)

theorem run_commit_witness:
  "getWordAtPosition (ex_env (Fulfilled ''bar'') (Fulfilled ex_edits) (Fulfilled (Some ex_selection)))
     (getStartPosition (selection (ex_state 5 5))) = Some ex_word
   \<and> collectorOutcome (ex_env (Fulfilled ''bar'') (Fulfilled ex_edits) (Fulfilled (Some ex_selection)))
       (ex_state 5 5) ex_word = Fulfilled ''bar''
   \<and> rename (ex_env (Fulfilled ''bar'') (Fulfilled ex_edits) (Fulfilled (Some ex_selection)))
       (position (ex_state 5 5)) ''bar'' = Fulfilled ex_edits
   \<and> rejectReason ex_edits = None
   \<and> finish (ex_env (Fulfilled ''bar'') (Fulfilled ex_edits) (Fulfilled (Some ex_selection)))
       (edits ex_edits) = Fulfilled (Some ex_selection)
   \<and> editsStaged (emitted (ex_state 5 5)
        (snd (run (ex_env (Fulfilled ''bar'') (Fulfilled ex_edits) (Fulfilled (Some ex_selection)))
           (ex_state 5 5)))) = [1, 2]
   \<and> finishCalls (emitted (ex_state 5 5)
        (snd (run (ex_env (Fulfilled ''bar'') (Fulfilled ex_edits) (Fulfilled (Some ex_selection)))
           (ex_state 5 5)))) = [[1, 2]]
   \<and> selection (snd (run (ex_env (Fulfilled ''bar'') (Fulfilled ex_edits)
        (Fulfilled (Some ex_selection))) (ex_state 5 5))) = ex_selection
   \<and> finishCalls (emitted (ex_state 5 5)
        (snd (run (ex_env (Fulfilled ''bar'') (Fulfilled ex_edits) (Fulfilled None))
           (ex_state 5 5)))) = [[1, 2]]
   \<and> selection (snd (run (ex_env (Fulfilled ''bar'') (Fulfilled ex_edits) (Fulfilled None))
        (ex_state 5 5))) = selection (ex_state 5 5)"
proof -
  let ?s = "ex_state 5 5"
  have w: "getWordAtPosition (ex_env (Fulfilled ''bar'') (Fulfilled ex_edits) (Fulfilled f))
             (getStartPosition (selection ?s)) = Some ex_word" for f
    by (simp add: ex_defs)
  have c: "collectorOutcome (ex_env (Fulfilled ''bar'') (Fulfilled ex_edits) (Fulfilled f)) ?s
             ex_word = Fulfilled ''bar''" for f
    by (simp add: ex_defs)
  have r: "rename (ex_env (Fulfilled ''bar'') (Fulfilled ex_edits) (Fulfilled f)) (position ?s)
             ''bar'' = Fulfilled ex_edits" for f
    by (simp add: ex_defs)
  have n: "rejectReason ex_edits = None"
    by (simp add: ex_edits_def)
  have x: "rejectReason ex_edits = None \<or> rejectReason ex_edits = Some []"
    by (simp add: ex_edits_def)
  have f: "finish (ex_env (Fulfilled ''bar'') (Fulfilled ex_edits) (Fulfilled f)) (edits ex_edits)
             = Fulfilled f" for f
    by (simp add: ex_defs)
  have e: "edits ex_edits = [1, 2]"
    by (simp add: ex_edits_def)
  show ?thesis
    using w [of "Some ex_selection"] c [of "Some ex_selection"] r [of "Some ex_selection"] n
      f [of "Some ex_selection"] e
      run_commit [OF w c r x f, of "Some ex_selection"] run_commit [OF w c r x f, of None]
    by simp
qed



text \<open>
  C9: the action is enabled only when at least one resolver is registered for the
  editor's document and the document is writable, and so is its menu entry visible;
  for an editor whose document has no registered resolver, \<^verbatim>\<open>enabled\<close> and the menu
  condition are both false.
\<close>

theorem RenameAction_enabled_visible:
  "(RenameAction_enabled editor \<longrightarrow> renameProviders editor \<noteq> [] \<and> \<not> readOnly editor)
   \<and> (RenameAction_menuOpts_kbExpr editor \<longrightarrow> renameProviders editor \<noteq> [] \<and> \<not> readOnly editor)
   \<and> (renameProviders editor = [] \<longrightarrow>
        \<not> RenameAction_enabled editor \<and> \<not> RenameAction_menuOpts_kbExpr editor)"
  by (simp add: action_defs)

theorem RenameAction_enabled_visible_witness:
  "RenameAction_enabled (ex_editor [1] False False)
   \<and> RenameAction_menuOpts_kbExpr (ex_editor [1] False False)
   \<and> renameProviders (ex_editor [1] False False) = [1]
   \<and> \<not> readOnly (ex_editor [1] False False)
   \<and> renameProviders (ex_editor [] False False) = []
   \<and> \<not> RenameAction_enabled (ex_editor [] False False)
   \<and> \<not> RenameAction_menuOpts_kbExpr (ex_editor [] False False)"
proof -
  have 1: "RenameAction_enabled (ex_editor [1] False False)"
    by (simp add: action_defs)
  have 2: "RenameAction_menuOpts_kbExpr (ex_editor [1] False False)"
    by (simp add: action_defs)
  have 3: "renameProviders (ex_editor [] False False) = []"
    by (simp add: ex_editor_def)
  have 4: "renameProviders (ex_editor [1] False False) = [1]"
    by (simp add: ex_editor_def)
  have 5: "\<not> readOnly (ex_editor [1] False False)"
    using 1 RenameAction_enabled_visible [of "ex_editor [1] False False"] by blast
  have 6: "\<not> RenameAction_enabled (ex_editor [] False False)
     \<and> \<not> RenameAction_menuOpts_kbExpr (ex_editor [] False False)"
    using 3 RenameAction_enabled_visible [of "ex_editor [] False False"] by blast
  show ?thesis
    using 1 2 3 4 5 6 by blast
qed

text \<open>
  C10: for an editor whose model has an editable range, \<^verbatim>\<open>supported\<close> is false, whatever
  the base class answers and also when a resolver is registered; \<^verbatim>\<open>supported\<close> holds
  only when the model has no editable range.
\<close>

theorem RenameAction_supported_editableRange:
  "(hasEditableRange editor \<longrightarrow> \<not> RenameAction_supported super_supported editor)
   \<and> (RenameAction_supported super_supported editor \<longrightarrow> \<not> hasEditableRange editor)"
  by (simp add: RenameAction_supported_def)

theorem RenameAction_supported_editableRange_witness:
  "hasEditableRange (ex_editor [1] True False)
   \<and> RenameProviderRegistry_has (ex_editor [1] True False)
   \<and> \<not> RenameAction_supported True (ex_editor [1] True False)
   \<and> RenameAction_supported True (ex_editor [1] False False)
   \<and> \<not> hasEditableRange (ex_editor [1] False False)"
proof -
  have 1: "RenameAction_supported True (ex_editor [1] False False)"
    by (simp add: action_defs)
  have 2: "hasEditableRange (ex_editor [1] True False)"
    "RenameProviderRegistry_has (ex_editor [1] True False)"
    by (simp_all add: action_defs)
  show ?thesis
    using 1 2 RenameAction_supported_editableRange [of "ex_editor [1] True False" True]
      RenameAction_supported_editableRange [of "ex_editor [1] False False" True]
    by simp
qed

end
